theory Spec2Isabelle
  imports Complex_Main
begin

section \<open>JavaScript values\<close>

text \<open>
  The front end is TypeScript; at run time its values are JavaScript values. A
  \<open>number\<close> is an IEEE double: here a real number, or one of the three special values.
  Arithmetic on \<open>Num\<close> is exact (rounding, overflow and the sign of zero are left out).
\<close>

datatype number = Num real | NaN | PosInfinity | NegInfinity

text \<open>\<open>x <= y\<close> and \<open>x < y\<close> of JavaScript: every comparison with \<open>NaN\<close> is false.\<close>

fun js_le :: "number \<Rightarrow> number \<Rightarrow> bool" where
  "js_le NaN _ = False"
| "js_le _ NaN = False"
| "js_le (Num a) (Num b) = (a \<le> b)"
| "js_le NegInfinity _ = True"
| "js_le _ PosInfinity = True"
| "js_le PosInfinity _ = False"
| "js_le _ NegInfinity = False"

fun js_lt :: "number \<Rightarrow> number \<Rightarrow> bool" where
  "js_lt NaN _ = False"
| "js_lt _ NaN = False"
| "js_lt (Num a) (Num b) = (a < b)"
| "js_lt PosInfinity _ = False"
| "js_lt _ NegInfinity = False"
| "js_lt NegInfinity _ = True"
| "js_lt _ PosInfinity = True"

text \<open>\<open>x > y\<close> is \<open>y < x\<close>.\<close>

abbreviation js_gt :: "number \<Rightarrow> number \<Rightarrow> bool" where
  "js_gt x y \<equiv> js_lt y x"

text \<open>
  Arithmetic. \<open>inf_of_sign\<close> is the result of an operation that leaves the finite
  numbers: an infinity of the given sign, and \<open>NaN\<close> for an undetermined one.
\<close>

definition inf_of_sign :: "real \<Rightarrow> number" where
  "inf_of_sign s = (if s = 0 then NaN else if s > 0 then PosInfinity else NegInfinity)"

fun js_add :: "number \<Rightarrow> number \<Rightarrow> number" where
  "js_add NaN _ = NaN"
| "js_add _ NaN = NaN"
| "js_add (Num a) (Num b) = Num (a + b)"
| "js_add PosInfinity NegInfinity = NaN"
| "js_add NegInfinity PosInfinity = NaN"
| "js_add PosInfinity _ = PosInfinity"
| "js_add _ PosInfinity = PosInfinity"
| "js_add NegInfinity _ = NegInfinity"
| "js_add _ NegInfinity = NegInfinity"

fun js_mul :: "number \<Rightarrow> number \<Rightarrow> number" where
  "js_mul NaN _ = NaN"
| "js_mul _ NaN = NaN"
| "js_mul (Num a) (Num b) = Num (a * b)"
| "js_mul PosInfinity (Num b) = inf_of_sign b"
| "js_mul NegInfinity (Num b) = inf_of_sign (- b)"
| "js_mul (Num a) PosInfinity = inf_of_sign a"
| "js_mul (Num a) NegInfinity = inf_of_sign (- a)"
| "js_mul PosInfinity PosInfinity = PosInfinity"
| "js_mul NegInfinity NegInfinity = PosInfinity"
| "js_mul PosInfinity NegInfinity = NegInfinity"
| "js_mul NegInfinity PosInfinity = NegInfinity"

fun js_div :: "number \<Rightarrow> number \<Rightarrow> number" where
  "js_div NaN _ = NaN"
| "js_div _ NaN = NaN"
| "js_div (Num a) (Num b) = (if b = 0 then inf_of_sign a else Num (a / b))"
| "js_div (Num a) _ = Num 0"
| "js_div PosInfinity (Num b) = (if b < 0 then NegInfinity else PosInfinity)"
| "js_div NegInfinity (Num b) = (if b < 0 then PosInfinity else NegInfinity)"
| "js_div _ _ = NaN"

text \<open>\<open>Math.round(x)\<close>, which rounds a half up.\<close>

fun js_round :: "number \<Rightarrow> number" where
  "js_round (Num a) = Num (of_int \<lfloor>a + 1 / 2\<rfloor>)"
| "js_round x = x"

text \<open>
  A value as \<open>response.json()\<close> yields it, with \<open>JUndefined\<close> for what a missing
  property reads as. An object is its list of own properties.
\<close>

datatype json =
    JUndefined
  | JNull
  | JBool bool
  | JNum number
  | JStr string
  | JArr "json list"
  | JObj "(string \<times> json) list"

text \<open>Truthiness, as \<open>!v\<close>, \<open>a || b\<close> and \<open>a && b\<close> test it.\<close>

fun truthy :: "json \<Rightarrow> bool" where
  "truthy JUndefined = False"
| "truthy JNull = False"
| "truthy (JBool b) = b"
| "truthy (JNum n) = (n \<noteq> Num 0 \<and> n \<noteq> NaN)"
| "truthy (JStr s) = (s \<noteq> [])"
| "truthy (JArr _) = True"
| "truthy (JObj _) = True"

text \<open>\<open>a || b\<close>: the first operand when it is truthy, else the second.\<close>

definition js_or :: "json \<Rightarrow> json \<Rightarrow> json" where
  "js_or a b = (if truthy a then a else b)"

text \<open>
  \<open>v.k\<close> for the property names the code reads (\<open>detail\<close>, \<open>message\<close>, \<open>frames\<close>,
  \<open>status\<close>): an own property of an object, \<open>undefined\<close> on every other value that
  allows the read. Reading a property of \<open>null\<close> or \<open>undefined\<close> throws a TypeError;
  the callers below handle those two before they read.
\<close>

fun get :: "string \<Rightarrow> json \<Rightarrow> json" where
  "get k (JObj kvs) = (case map_of kvs k of Some v \<Rightarrow> v | None \<Rightarrow> JUndefined)"
| "get k _ = JUndefined"

text \<open>\<open>Array.isArray(v)\<close>.\<close>

fun isArray :: "json \<Rightarrow> bool" where
  "isArray (JArr _) = True"
| "isArray _ = False"

subsection \<open>Strings\<close>

text \<open>\<open>s.includes(sub)\<close>: \<open>sub\<close> occurs in \<open>s\<close> as a contiguous run.\<close>

fun str_includes :: "string \<Rightarrow> string \<Rightarrow> bool" where
  "str_includes [] sub = (sub = [])"
| "str_includes (c # cs) sub = (take (length sub) (c # cs) = sub \<or> str_includes cs sub)"

text \<open>\<open>s.startsWith(p)\<close>.\<close>

definition startsWith :: "string \<Rightarrow> string \<Rightarrow> bool" where
  "startsWith s p = (take (length p) s = p)"

text \<open>
  \<open>s.padStart(n, c)\<close> for a one-character pad string: \<open>s\<close> filled on the left up to
  \<open>n\<close> characters.
\<close>

definition padStart :: "nat \<Rightarrow> char \<Rightarrow> string \<Rightarrow> string" where
  "padStart n c s = replicate (n - length s) c @ s"

text \<open>The decimal digits of a natural number.\<close>

definition digit_char :: "nat \<Rightarrow> char" where
  "digit_char d = ''0123456789'' ! d"

fun show_nat :: "nat \<Rightarrow> string" where
  "show_nat n = (if n < 10 then [digit_char n] else show_nat (n div 10) @ [digit_char (n mod 10)])"

declare show_nat.simps [simp del]

text \<open>A string of decimal digits only.\<close>

definition digits :: "string \<Rightarrow> bool" where
  "digits s = (set s \<subseteq> set ''0123456789'')"

section \<open>lib/api.ts\<close>

text \<open>
  A \<open>File\<close> of the browser: its name, MIME type and size in bytes. An element of a
  \<open>File[]\<close> that is null, undefined or not an instance of \<open>File\<close> is \<open>None\<close>; so is
  a \<open>files\<close> argument that is null or undefined.
\<close>

record File =
  file_name :: string
  file_type :: string
  file_size :: nat

record AnalysisConfig =
  frame_interval :: number
  max_duration :: number

text \<open>
  What is thrown. \<open>Error v\<close> is \<open>new Error(v)\<close>: its message is \<open>String(v)\<close>, which
  is \<open>s\<close> itself for \<open>v = JStr s\<close>. The other two are the built-in errors the code can
  meet: a TypeError (a rejected \<open>fetch\<close>, a property read on \<open>null\<close>) and the
  SyntaxError of \<open>response.json()\<close> on a body that is not JSON.
\<close>

datatype error = Error json | TypeError string | SyntaxError string

text \<open>
  A form field is a file or the \<open>toString()\<close> of a number (kept as the number). A
  request is the path under \<open>API_URL\<close> it is posted to, and its form.
\<close>

datatype field = FileField File | NumField number

record request =
  path :: string
  form :: "(string \<times> field) list"

text \<open>
  The \<open>Response\<close> as the code reads it: \<open>ok\<close>, \<open>status\<close>, \<open>statusText\<close>, the value
  \<open>json()\<close> resolves to (\<open>None\<close> when it rejects) and the size of \<open>blob()\<close>.
  \<open>fetch\<close> resolves to a response or rejects with an error.
\<close>

record response =
  ok :: bool
  status :: nat
  statusText :: string
  body :: "json option"
  blob_size :: nat

datatype fetch_result = Rejected error | Resolved response

type_synonym network = "request \<Rightarrow> fetch_result"

text \<open>
  The message computed for a response that is not ok (lines 52 to 60 and 137 to 145):
  \<open>detail\<close>, else \<open>message\<close>, else the default; when \<open>json()\<close> rejects or the body is
  \<open>null\<close> (the read of \<open>detail\<close> throws), the status text, else
  \<open>Server error (<status>)\<close>.
\<close>

definition server_error :: "nat \<Rightarrow> string" where
  "server_error st = ''Server error ('' @ show_nat st @ '')''"

definition errorMessage :: "string \<Rightarrow> response \<Rightarrow> json" where
  "errorMessage dflt r =
     (case body r of
        None \<Rightarrow> js_or (JStr (statusText r)) (JStr (server_error (status r)))
      | Some JNull \<Rightarrow> js_or (JStr (statusText r)) (JStr (server_error (status r)))
      | Some JUndefined \<Rightarrow> js_or (JStr (statusText r)) (JStr (server_error (status r)))
      | Some errorData \<Rightarrow>
          js_or (get ''detail'' errorData) (js_or (get ''message'' errorData) (JStr dflt)))"

text \<open>The error thrown for a response that is not ok (lines 62 to 73 and 147 to 158).\<close>

definition http_error :: "string \<Rightarrow> response \<Rightarrow> error" where
  "http_error dflt r =
     (if status r = 400 then
        Error (js_or (errorMessage dflt r)
                 (JStr ''Invalid request. Please check your video files and settings.''))
      else if status r = 413 then Error (JStr ''File too large. Maximum file size is 100MB.'')
      else if status r = 500 then Error (JStr ''Server error. Please try again later.'')
      else if status r \<ge> 500 then
        Error (JStr (server_error (status r) @ ''. Please try again later.''))
      else Error (errorMessage dflt r))"

text \<open>The \<open>catch\<close> around both functions (lines 88 to 93 and 169 to 174).\<close>

definition catch_network :: "error + 'a \<Rightarrow> error + 'a" where
  "catch_network res =
     (case res of
        Inl (TypeError m) \<Rightarrow>
          if str_includes m ''fetch''
          then Inl (Error (JStr ''Network error. Please check your connection and try again.''))
          else res
      | _ \<Rightarrow> res)"

text \<open>
  \<open>uploadVideos\<close>. The result is the list of requests issued to the network, in order,
  and what the promise settles to: \<open>Inl\<close> the error thrown, \<open>Inr\<close> the value returned.
  \<open>uploadVideos_try\<close> is the \<open>try\<close> block, \<open>uploadVideos\<close> the block under its
  \<open>catch\<close>.
\<close>

definition upload_form :: "File list \<Rightarrow> AnalysisConfig \<Rightarrow> (string \<times> field) list" where
  "upload_form fs config =
     map (\<lambda>f. (''videos'', FileField f)) fs
     @ [(''frame_interval'', NumField (frame_interval config)),
        (''max_duration'', NumField (max_duration config))]"

definition upload_response :: "fetch_result \<Rightarrow> error + json" where
  "upload_response fr =
     (case fr of
        Rejected e \<Rightarrow> Inl e
      | Resolved r \<Rightarrow>
          if \<not> ok r then Inl (http_error ''Failed to upload videos'' r)
          else (case body r of
                  None \<Rightarrow> Inl (SyntaxError ''Unexpected token'')
                | Some result \<Rightarrow>
                    if \<not> truthy result then Inl (Error (JStr ''Invalid response from server''))
                    else if \<not> isArray (get ''frames'' result)
                    then Inl (Error (JStr ''Invalid response format: frames must be an array''))
                    else Inr result))"

definition uploadVideos_try ::
  "File option list option \<Rightarrow> AnalysisConfig \<Rightarrow> network \<Rightarrow> request list \<times> (error + json)" where
  "uploadVideos_try files config net =
     (case files of
        None \<Rightarrow> ([], Inl (Error (JStr ''No files provided'')))
      | Some fs \<Rightarrow>
          if fs = [] then ([], Inl (Error (JStr ''No files provided'')))
          else if length fs > 6 then ([], Inl (Error (JStr ''Maximum 6 videos allowed'')))
          else if js_le (frame_interval config) (Num 0)
          then ([], Inl (Error (JStr ''Frame interval must be greater than 0'')))
          else if js_le (max_duration config) (Num 0)
          then ([], Inl (Error (JStr ''Max duration must be greater than 0'')))
          else if None \<in> set fs then ([], Inl (Error (JStr ''Invalid file provided'')))
          else
            let req = \<lparr>path = ''/api/analyze'', form = upload_form (map the fs) config\<rparr>
            in ([req], upload_response (net req)))"

definition uploadVideos ::
  "File option list option \<Rightarrow> AnalysisConfig \<Rightarrow> network \<Rightarrow> request list \<times> (error + json)" where
  "uploadVideos files config net =
     (case uploadVideos_try files config net of (reqs, res) \<Rightarrow> (reqs, catch_network res))"

text \<open>
  \<open>addTimestampOverlay\<close>. Its optional \<open>maxDuration\<close> is undefined (omitted), null
  or a number; it returns the blob (here its size). Again the \<open>try\<close> block comes
  first, then the function with its \<open>catch\<close>.
\<close>

datatype maxDuration = Omitted | Null | Given number

definition overlay_form :: "File list \<Rightarrow> maxDuration \<Rightarrow> (string \<times> field) list" where
  "overlay_form fs md =
     map (\<lambda>f. (''videos'', FileField f)) fs
     @ (case md of Given d \<Rightarrow> [(''max_duration'', NumField d)] | _ \<Rightarrow> [])"

definition overlay_response :: "fetch_result \<Rightarrow> error + nat" where
  "overlay_response fr =
     (case fr of
        Rejected e \<Rightarrow> Inl e
      | Resolved r \<Rightarrow>
          if \<not> ok r then Inl (http_error ''Failed to process video'' r)
          else if blob_size r = 0
          then Inl (Error (JStr ''Invalid response from server: empty video file''))
          else Inr (blob_size r))"

definition addTimestampOverlay_try ::
  "File option list option \<Rightarrow> maxDuration \<Rightarrow> network \<Rightarrow> request list \<times> (error + nat)" where
  "addTimestampOverlay_try files md net =
     (case files of
        None \<Rightarrow> ([], Inl (Error (JStr ''No files provided'')))
      | Some fs \<Rightarrow>
          if fs = [] then ([], Inl (Error (JStr ''No files provided'')))
          else if length fs > 6 then ([], Inl (Error (JStr ''Maximum 6 videos allowed'')))
          else if (case md of Given d \<Rightarrow> js_le d (Num 0) | _ \<Rightarrow> False)
          then ([], Inl (Error (JStr ''Max duration must be greater than 0'')))
          else if (case md of Given d \<Rightarrow> js_gt d (Num 60) | _ \<Rightarrow> False)
          then ([], Inl (Error (JStr ''Max duration cannot exceed 60 seconds'')))
          else if None \<in> set fs then ([], Inl (Error (JStr ''Invalid file provided'')))
          else
            let req = \<lparr>path = ''/api/video/timestamp-overlay'',
                       form = overlay_form (map the fs) md\<rparr>
            in ([req], overlay_response (net req)))"

definition addTimestampOverlay ::
  "File option list option \<Rightarrow> maxDuration \<Rightarrow> network \<Rightarrow> request list \<times> (error + nat)" where
  "addTimestampOverlay files md net =
     (case addTimestampOverlay_try files md net of (reqs, res) \<Rightarrow> (reqs, catch_network res))"

section \<open>lib/types.ts\<close>

text \<open>
  The two interfaces. TypeScript types are erased at run time, and \<open>uploadVideos\<close>
  returns whatever \<open>response.json()\<close> gave once \<open>frames\<close> is an array; these
  predicates say which values conform to the interfaces as declared.
\<close>

fun is_number :: "json \<Rightarrow> bool" where
  "is_number (JNum _) = True"
| "is_number _ = False"

fun is_string :: "json \<Rightarrow> bool" where
  "is_string (JStr _) = True"
| "is_string _ = False"

definition is_FrameAnalysis :: "json \<Rightarrow> bool" where
  "is_FrameAnalysis v =
     (is_number (get ''timestamp'' v) \<and> is_string (get ''event'' v) \<and>
      is_string (get ''ball_position'' v) \<and> is_number (get ''players_detected'' v) \<and>
      is_string (get ''team_a_shape'' v) \<and> is_string (get ''team_b_shape'' v) \<and>
      is_string (get ''tactical_notes'' v))"

definition is_AnalysisResponse :: "json \<Rightarrow> bool" where
  "is_AnalysisResponse v =
     ((case get ''frames'' v of JArr fs \<Rightarrow> list_all is_FrameAnalysis fs | _ \<Rightarrow> False) \<and>
      is_number (get ''total_frames'' v) \<and> is_string (get ''status'' v))"

text \<open>The names of the properties a value carries: none unless it is an object.\<close>

fun keys :: "json \<Rightarrow> string list" where
  "keys (JObj kvs) = map fst kvs"
| "keys _ = []"

section \<open>App.tsx\<close>

text \<open>
  The component is in the sources in two revisions: \<open>frontend/src/App.tsx\<close>, with the
  state variables \<open>frames\<close> and \<open>error\<close> only and a handler that is given the
  frames, and a later one (in the sources after \<open>lib/types.ts\<close>) with the status, the
  tabs and a handler that is given the whole response. The state below is the later
  one's; the earlier handler touches its first two variables only.
\<close>

datatype tab = tab_analysis | tab_timestamp

record App_state =
  frames :: "json list"
  error :: "string option"
  analysisStatus :: json
  activeTab :: tab

text \<open>The state at mount: the initial values of the four \<open>useState\<close> calls.\<close>

definition App_init :: App_state where
  "App_init = \<lparr>frames = [], error = None, analysisStatus = JNull, activeTab = tab_analysis\<rparr>"


text \<open>
  \<open>handleAnalysisComplete\<close> of the later revision, which the later uploader calls
  with \<open>result\<close>. The first \<open>console.log\<close> reads \<open>result.frames.length\<close>
  outside the \<open>try\<close>: on a result, or a \<open>frames\<close>, that is null or undefined it throws
  a TypeError and the state is not touched.
\<close>

definition handleAnalysisComplete :: "json \<Rightarrow> App_state \<Rightarrow> error + App_state" where
  "handleAnalysisComplete result st =
     (if result = JNull \<or> result = JUndefined then Inl (TypeError ''Cannot read properties'')
      else (case get ''frames'' result of
              JNull \<Rightarrow> Inl (TypeError ''Cannot read properties'')
            | JUndefined \<Rightarrow> Inl (TypeError ''Cannot read properties'')
            | JArr fs \<Rightarrow>
                Inr (st\<lparr>frames := fs, analysisStatus := get ''status'' result, error := None\<rparr>)
            | _ \<Rightarrow> Inr (st\<lparr>error := Some ''Invalid frames data received''\<rparr>)))"

text \<open>
  The notice rendered for partial results (the card under
  \<open>analysisStatus === 'partial'\<close> on the analysis tab): its text is fixed.
\<close>

definition quota_notice :: string where
  "quota_notice = ''API quota exhausted. Some frames were analyzed successfully, but others could not be processed due to daily quota limits (20 requests/day for free tier). Please upgrade your plan or try again tomorrow.''"

definition partial_notice :: "App_state \<Rightarrow> string option" where
  "partial_notice st =
     (if activeTab st = tab_analysis \<and> analysisStatus st = JStr ''partial''
      then Some quota_notice else None)"

section \<open>components/VideoUploader.tsx\<close>

text \<open>
  \<open>validateVideo\<close> resolves once: on one of the checks before the video element is
  made, or on the first of the element's events. The event is given as an argument.
\<close>

datatype MediaError =
    MEDIA_ERR_ABORTED | MEDIA_ERR_NETWORK | MEDIA_ERR_DECODE | MEDIA_ERR_SRC_NOT_SUPPORTED

datatype video_event =
    loadedmetadata number
  | onerror "MediaError option"
  | timeout
  | createObjectURL_throws

text \<open>
  The \<open>error\<close> of a failed validation, by the check that set it; \<open>Thrown_in_loop\<close> is
  the message of an error caught in the loop of \<open>handleFileSelect\<close>.
\<close>

datatype validation_error =
    Invalid_file
  | Not_a_video
  | Exceeds_limit nat
  | File_is_empty
  | Validation_timeout
  | No_duration
  | Duration_exceeds number
  | Could_not_read "MediaError option"
  | Preview_failed
  | Thrown_in_loop

record validation =
  valid :: bool
  duration :: number
  durationEstimated :: bool
  verror :: "validation_error option"

definition rejected :: "validation_error \<Rightarrow> validation" where
  "rejected e = \<lparr>valid = False, duration = Num 0, durationEstimated = False, verror = Some e\<rparr>"

text \<open>\<open>isNaN(d)\<close> on a number.\<close>

definition isNaN :: "number \<Rightarrow> bool" where
  "isNaN d = (d = NaN)"

text \<open>
  \<open>validateVideo\<close> of \<open>components/VideoUploader.tsx\<close>; \<open>maxDuration\<close> is the
  component's state.
\<close>

definition validateVideo :: "number \<Rightarrow> File option \<Rightarrow> video_event \<Rightarrow> validation" where
  "validateVideo maxDuration file ev =
     (case file of
        None \<Rightarrow> rejected Invalid_file
      | Some f \<Rightarrow>
          if \<not> startsWith (file_type f) ''video/'' then rejected Not_a_video
          else if file_size f > 100 * 1024 * 1024 then rejected (Exceeds_limit 100)
          else if file_size f = 0 then rejected File_is_empty
          else (case ev of
                  timeout \<Rightarrow> rejected Validation_timeout
                | loadedmetadata d \<Rightarrow>
                    if isNaN d \<or> js_le d (Num 0) then rejected No_duration
                    else if js_gt d maxDuration
                    then \<lparr>valid = False, duration = d, durationEstimated = False,
                          verror = Some (Duration_exceeds d)\<rparr>
                    else \<lparr>valid = True, duration = d, durationEstimated = False,
                          verror = None\<rparr>
                | onerror code \<Rightarrow> rejected (Could_not_read code)
                | createObjectURL_throws \<Rightarrow> rejected Preview_failed))"

text \<open>
  The later revision of the component (the one with \<open>analysisMode\<close>): the
  size limit depends on the mode, and a file the browser cannot read is let through with
  a duration estimated from its size, \<open>Math.max(1, fileSizeMB / 1.5)\<close>.
\<close>

datatype analysisMode = mode_frame | mode_multimodal

definition estimatedDuration :: "File \<Rightarrow> number" where
  "estimatedDuration f = Num (max 1 (real (file_size f) / (1024 * 1024) / 1.5))"

definition estimated :: "File \<Rightarrow> validation" where
  "estimated f = \<lparr>valid = True, duration = estimatedDuration f, durationEstimated = True,
                  verror = None\<rparr>"

definition validateVideo_mode :: "File option \<Rightarrow> analysisMode \<Rightarrow> video_event \<Rightarrow> validation" where
  "validateVideo_mode file mode ev =
     (case file of
        None \<Rightarrow> rejected Invalid_file
      | Some f \<Rightarrow>
          let maxSizeMB = (if mode = mode_multimodal then 50 else 100) in
          if \<not> startsWith (file_type f) ''video/'' then rejected Not_a_video
          else if file_size f > maxSizeMB * 1024 * 1024 then rejected (Exceeds_limit maxSizeMB)
          else if file_size f = 0 then rejected File_is_empty
          else (case ev of
                  timeout \<Rightarrow> estimated f
                | loadedmetadata d \<Rightarrow>
                    if isNaN d \<or> js_le d (Num 0) then estimated f
                    else \<lparr>valid = True, duration = d, durationEstimated = False,
                          verror = None\<rparr>
                | onerror code \<Rightarrow> estimated f
                | createObjectURL_throws \<Rightarrow> estimated f))"

text \<open>
  The component's state in the later revision: the list of videos, the error shown and
  the analysis mode. A file of a selection comes with what the browser does for it: the
  event its validation resolves on, and the preview URL that \<open>URL.createObjectURL\<close>
  returns for it (\<open>None\<close> when that call throws).
\<close>

record VideoFile =
  vfile :: File
  preview :: string
  vduration :: number
  vdurationEstimated :: bool

datatype upload_error =
    Maximum_6_videos
  | All_failed "(string \<times> validation_error option) list"
  | Some_failed "(string \<times> validation_error option) list"

record Uploader_state =
  videos :: "VideoFile list"
  upload_error :: "upload_error option"
  mode :: analysisMode

type_synonym selection = "(File \<times> video_event \<times> string option) list"

text \<open>
  The loop over the selection: the videos accepted and the errors collected, in order.
  A file that is not valid is filed under the errors; so is a valid one whose preview
  URL cannot be made, through the \<open>catch\<close> of the loop body.
\<close>

fun validate_all ::
  "analysisMode \<Rightarrow> selection \<Rightarrow> VideoFile list \<times> (string \<times> validation_error option) list" where
  "validate_all m [] = ([], [])"
| "validate_all m ((f, ev, p) # rest) =
     (let v = validateVideo_mode (Some f) m ev; (newVideos, errors) = validate_all m rest
      in if \<not> valid v then (newVideos, (file_name f, verror v) # errors)
         else (case p of
                 None \<Rightarrow> (newVideos, (file_name f, Some Thrown_in_loop) # errors)
               | Some url \<Rightarrow>
                   (\<lparr>vfile = f, preview = url, vduration = duration v,
                     vdurationEstimated = durationEstimated v\<rparr> # newVideos, errors)))"

text \<open>
  \<open>handleFileSelect\<close> of the later revision. The callback is made by \<open>useCallback\<close> at
  a render and closes over that render's \<open>videos.length\<close> and \<open>analysisMode\<close>; its
  updates (\<open>setError\<close>, and \<open>setVideos\<close> with a function of the previous list) act on
  the state as it is when they are made. The handler awaits the validations between its
  check and its last updates, so it is given in two steps: the check, which says whether
  the handler goes on, and the commit after the validations.
\<close>

record render =
  seen_length :: nat
  seen_mode :: analysisMode

definition render_of :: "Uploader_state \<Rightarrow> render" where
  "render_of st = \<lparr>seen_length = length (videos st), seen_mode = mode st\<rparr>"

definition handleFileSelect_check ::
  "render \<Rightarrow> selection option \<Rightarrow> Uploader_state \<Rightarrow> bool \<times> Uploader_state" where
  "handleFileSelect_check r files st =
     (case files of
        None \<Rightarrow> (False, st)
      | Some fileArray \<Rightarrow>
          if fileArray = [] then (False, st)
          else if seen_length r + length fileArray > 6
          then (False, st\<lparr>upload_error := Some Maximum_6_videos\<rparr>)
          else (True, st\<lparr>upload_error := None\<rparr>))"

definition handleFileSelect_commit :: "render \<Rightarrow> selection \<Rightarrow> Uploader_state \<Rightarrow> Uploader_state" where
  "handleFileSelect_commit r fileArray st =
     (let (newVideos, errors) = validate_all (seen_mode r) fileArray;
          st1 = (if errors \<noteq> [] \<and> newVideos = []
                 then st\<lparr>upload_error := Some (All_failed errors)\<rparr>
                 else if errors \<noteq> [] then st\<lparr>upload_error := Some (Some_failed errors)\<rparr>
                 else st)
      in if newVideos \<noteq> [] then st1\<lparr>videos := videos st1 @ newVideos\<rparr> else st1)"

text \<open>
  One call of the handler that no other update comes between: the commit follows the
  check on the same state.
\<close>

definition handleFileSelect :: "render \<Rightarrow> selection option \<Rightarrow> Uploader_state \<Rightarrow> Uploader_state" where
  "handleFileSelect r files st =
     (case files of
        None \<Rightarrow> st
      | Some fileArray \<Rightarrow>
          (case handleFileSelect_check r files st of
             (True, st1) \<Rightarrow> handleFileSelect_commit r fileArray st1
           | (False, st1) \<Rightarrow> st1))"

section \<open>components/SummaryPanel.tsx\<close>

text \<open>The frames as the component's props type them: the interface of \<open>lib/types.ts\<close>.\<close>

record FrameAnalysis =
  timestamp :: number
  event :: string
  ball_position :: string
  players_detected :: number
  team_a_shape :: string
  team_b_shape :: string
  tactical_notes :: string

text \<open>
  The figures of the summary that are numbers. (The tallies of events and formations,
  and the most common of each, are not modelled.)
\<close>

record summary =
  totalEvents :: nat
  avgPlayersDetected :: number
  ballVisibilityRate :: number

definition counts_as_event :: "FrameAnalysis \<Rightarrow> bool" where
  "counts_as_event f = (event f \<noteq> [] \<and> event f \<noteq> ''none'' \<and> event f \<noteq> ''unknown'')"

definition ball_visible :: "FrameAnalysis \<Rightarrow> bool" where
  "ball_visible f = (ball_position f \<noteq> [] \<and> ball_position f \<noteq> ''Not visible'')"

text \<open>The \<open>forEach\<close> loop, on its two counters \<open>totalPlayers\<close> and \<open>ballVisibleCount\<close>.\<close>

fun tally :: "FrameAnalysis list \<Rightarrow> number \<times> nat \<Rightarrow> number \<times> nat" where
  "tally [] acc = acc"
| "tally (f # fs) (totalPlayers, ballVisibleCount) =
     tally fs (js_add totalPlayers (players_detected f),
               if ball_visible f then ballVisibleCount + 1 else ballVisibleCount)"

definition SummaryPanel :: "FrameAnalysis list \<Rightarrow> summary" where
  "SummaryPanel fs =
     (let (totalPlayers, ballVisibleCount) = tally fs (Num 0, 0);
          avg = (if length fs > 0 then js_div totalPlayers (Num (real (length fs))) else Num 0);
          rate = (if length fs > 0
                  then js_div (Num (real ballVisibleCount)) (Num (real (length fs)))
                  else Num 0)
      in \<lparr>totalEvents = length (filter counts_as_event fs),
          avgPlayersDetected = js_div (js_round (js_mul avg (Num 10))) (Num 10),
          ballVisibilityRate = js_round (js_mul rate (Num 100))\<rparr>)"

section \<open>The normalizer of the back end\<close>

text \<open>
  Modelled from the spec: \<open>normalize\<close> of the back end (its \<open>models.py\<close> is not among
  the sources), from section 4.4 and the data model of section 3. The raw model output
  is an untyped JSON value; the result is the canonical record, here the front end's
  \<open>FrameAnalysis\<close> extended by the team identity that the rules and the example of
  section 8 speak of. Where the spec leaves a choice open it is made as follows: the
  names of team A are the four of the spec and the canonical \<open>A\<close> itself (all compared
  in lower case), those of team B their mirror images; a numeric \<open>players_detected\<close> is
  rounded down; the notes default to \<open>none\<close>; a missing time stamp is 0.
\<close>

record Normalized = FrameAnalysis +
  team :: string

text \<open>Modelled from the spec: the comparison of team names is case-insensitive.\<close>

definition toLowerCase :: "string \<Rightarrow> string" where
  "toLowerCase s =
     map (\<lambda>c. case map_of (zip ''ABCDEFGHIJKLMNOPQRSTUVWXYZ'' ''abcdefghijklmnopqrstuvwxyz'') c of
                 Some l \<Rightarrow> l | None \<Rightarrow> c) s"

text \<open>
  Modelled from the spec: the free texts that mean team A (\<open>Team A\<close>, \<open>TEAM 1\<close>,
  \<open>1\<close>, \<open>home\<close> and \<open>A\<close> itself, in lower case) and the symmetric set for team B.
\<close>

definition team_A_names :: "string list" where
  "team_A_names = [''a'', ''team a'', ''team 1'', ''1'', ''home'']"

definition team_B_names :: "string list" where
  "team_B_names = [''b'', ''team b'', ''team 2'', ''2'', ''away'']"

text \<open>
  Modelled from the spec: the team identity is \<open>A\<close> or \<open>B\<close> for a recognized text
  and \<open>unknown\<close> for everything else.
\<close>

definition normalize_team :: "json \<Rightarrow> string" where
  "normalize_team v =
     (case v of
        JStr s \<Rightarrow>
          if toLowerCase s \<in> set team_A_names then ''A''
          else if toLowerCase s \<in> set team_B_names then ''B''
          else ''unknown''
      | _ \<Rightarrow> ''unknown'')"

text \<open>
  Modelled from the spec: \<open>players_detected\<close> is coerced to a non-negative integer;
  a negative or non-numeric value gives 0.
\<close>

definition normalize_players :: "json \<Rightarrow> number" where
  "normalize_players v =
     (case v of
        JNum (Num r) \<Rightarrow> if r < 0 then Num 0 else Num (of_int \<lfloor>r\<rfloor>)
      | _ \<Rightarrow> Num 0)"

text \<open>
  Modelled from the spec: a text field that is absent or empty takes its fixed sentinel;
  a missing time stamp is 0.
\<close>

definition text_or :: "string \<Rightarrow> json \<Rightarrow> string" where
  "text_or sentinel v = (case v of JStr s \<Rightarrow> if s = [] then sentinel else s | _ \<Rightarrow> sentinel)"

definition normalize_timestamp :: "json \<Rightarrow> number" where
  "normalize_timestamp v = (case v of JNum n \<Rightarrow> n | _ \<Rightarrow> Num 0)"

text \<open>
  Modelled from the spec: \<open>normalize(RawModelOutput) -> FrameAnalysis\<close>, field by
  field; properties of the raw output that are not read are ignored.
\<close>

definition normalize :: "json \<Rightarrow> Normalized" where
  "normalize raw =
     \<lparr>timestamp = normalize_timestamp (get ''timestamp'' raw),
      event = text_or ''none'' (get ''event'' raw),
      ball_position = text_or ''unknown'' (get ''ball_position'' raw),
      players_detected = normalize_players (get ''players_detected'' raw),
      team_a_shape = text_or ''Unknown'' (get ''team_a_shape'' raw),
      team_b_shape = text_or ''Unknown'' (get ''team_b_shape'' raw),
      tactical_notes = text_or ''none'' (get ''tactical_notes'' raw),
      team = normalize_team (get ''team'' raw)\<rparr>"

text \<open>
  Modelled from the spec: a normalized record written back as the JSON object it is, to
  say what normalizing it again means.
\<close>

definition to_raw :: "Normalized \<Rightarrow> json" where
  "to_raw n =
     JObj [(''timestamp'', JNum (timestamp n)), (''event'', JStr (event n)),
           (''ball_position'', JStr (ball_position n)),
           (''players_detected'', JNum (players_detected n)),
           (''team_a_shape'', JStr (team_a_shape n)), (''team_b_shape'', JStr (team_b_shape n)),
           (''tactical_notes'', JStr (tactical_notes n)), (''team'', JStr (team n))]"

section \<open>The frame sampler of the back end\<close>

text \<open>
  Modelled from the spec: the frame sampler of the back end (its \<open>video_processor.py\<close>
  is not among the sources), from section 4.1. A video is its declared duration in
  seconds and, for each sample index, whether the frame there decodes. The samples are
  at \<open>t = k * frame_interval\<close> from \<open>k = 0\<close> while \<open>t\<close> is within the duration and not
  beyond \<open>max_duration\<close>; an undecodable frame is skipped; the emitted sequence is the
  list of the time stamps.
\<close>

record VideoSource =
  declared_duration :: real
  decodable :: "nat \<Rightarrow> bool"

datatype sampler_error = ConfigError | DecodeError

text \<open>
  Modelled from the spec: the indices \<open>k\<close> of the samples within the duration and the
  ceiling, from 0 up to the last \<open>k\<close> with \<open>k * frame_interval\<close> not beyond either.
\<close>

definition sample_indices :: "real \<Rightarrow> real \<Rightarrow> real \<Rightarrow> nat list" where
  "sample_indices dur interval maxd = [0 ..< Suc (nat \<lfloor>min dur maxd / interval\<rfloor>)]"

text \<open>
  Modelled from the spec: the sampler. It fails with \<open>ConfigError\<close> on an interval or a
  ceiling that is not positive, before sampling, and with \<open>DecodeError\<close> when no frame
  is readable; else it emits the time stamps of the decodable samples in order.
\<close>

definition sample_frames :: "VideoSource \<Rightarrow> real \<Rightarrow> real \<Rightarrow> sampler_error + real list" where
  "sample_frames v interval maxd =
     (if interval \<le> 0 \<or> maxd \<le> 0 then Inl ConfigError
      else
        let ts = map (\<lambda>k. real k * interval)
                   (filter (decodable v) (sample_indices (declared_duration v) interval maxd))
        in if ts = [] then Inl DecodeError else Inr ts)"

section \<open>The time stamp of the overlay\<close>

text \<open>
  Modelled from the spec: the time stamp that the Timestamp Overlay variant of the back
  end draws on the frames (its \<open>video_timestamp_overlay.py\<close> is not among the sources),
  from section 4.1: \<open>HH:MM:SS.mmm\<close>. The input is the position of the frame in
  seconds. Hours, minutes and seconds are filled with zeros to two digits, the
  milliseconds to three; the hours go on counting beyond 99.
\<close>

definition overlay_timestamp :: "real \<Rightarrow> string" where
  "overlay_timestamp seconds =
     (let hours = nat \<lfloor>seconds / 3600\<rfloor>;
          minutes = nat \<lfloor>seconds / 60\<rfloor> mod 60;
          secs = nat \<lfloor>seconds\<rfloor> mod 60;
          millis = nat \<lfloor>seconds * 1000\<rfloor> mod 1000
      in padStart 2 CHR ''0'' (show_nat hours) @ '':'' @ padStart 2 CHR ''0'' (show_nat minutes)
         @ '':'' @ padStart 2 CHR ''0'' (show_nat secs) @ ''.''
         @ padStart 3 CHR ''0'' (show_nat millis))"

section \<open>Sample inputs\<close>

text \<open>Concrete values the closed theorems below are stated at.\<close>

definition clip :: File where
  "clip = \<lparr>file_name = ''a.mp4'', file_type = ''video/mp4'', file_size = 2048\<rparr>"

definition offline :: network where
  "offline = (\<lambda>_. Rejected (TypeError ''Failed to fetch''))"

definition replies :: "response \<Rightarrow> network" where
  "replies r = (\<lambda>_. Resolved r)"

definition config_1_10 :: AnalysisConfig where
  "config_1_10 = \<lparr>frame_interval = Num 1, max_duration = Num 10\<rparr>"

definition frame0 :: json where
  "frame0 = JObj [(''timestamp'', JNum (Num 0)), (''event'', JStr ''pass''),
                  (''ball_position'', JStr ''midfield''), (''players_detected'', JNum (Num 12)),
                  (''team_a_shape'', JStr ''4-4-2''), (''team_b_shape'', JStr ''4-3-3''),
                  (''tactical_notes'', JStr ''high press'')]"

definition response_body :: "json list \<Rightarrow> nat \<Rightarrow> string \<Rightarrow> json" where
  "response_body fs n st =
     JObj [(''frames'', JArr fs), (''total_frames'', JNum (Num (real n))), (''status'', JStr st)]"

definition ok_200 :: "json \<Rightarrow> response" where
  "ok_200 b = \<lparr>ok = True, status = 200, statusText = ''OK'', body = Some b, blob_size = 0\<rparr>"

definition failure :: "nat \<Rightarrow> string \<Rightarrow> json option \<Rightarrow> response" where
  "failure st txt b = \<lparr>ok = False, status = st, statusText = txt, body = b, blob_size = 0\<rparr>"

definition accepted :: VideoFile where
  "accepted = \<lparr>vfile = clip, preview = ''blob:a'', vduration = Num 8,
                vdurationEstimated = False\<rparr>"

definition dropped :: "File \<times> video_event \<times> string option" where
  "dropped = (clip, loadedmetadata (Num 8), Some ''blob:a'')"

definition uploader :: "VideoFile list \<Rightarrow> Uploader_state" where
  "uploader vs = \<lparr>videos = vs, upload_error = None, mode = mode_frame\<rparr>"

section \<open>Properties of lib/api.ts\<close>

lemma js_gt_not_le: "js_gt x (Num 0) \<Longrightarrow> \<not> js_le x (Num 0)"
  by (cases x) auto

lemma catch_network_Error: "catch_network (Inl (Error v)) = Inl (Error v)"
  by (simp add: catch_network_def)

lemma catch_network_Inr_iff: "catch_network res = Inr x \<longleftrightarrow> res = Inr x"
  by (auto simp: catch_network_def split: sum.splits error.splits if_splits)

lemma catch_network_Inl: "\<exists>e'. catch_network (Inl e) = Inl e'"
  by (cases e) (simp_all add: catch_network_def)

lemma truthy_js_or: "truthy b \<Longrightarrow> truthy (js_or a b)"
  by (simp add: js_or_def)

lemma server_error_nonempty: "server_error st \<noteq> []"
  by (simp add: server_error_def)

lemma truthy_errorMessage: "dflt \<noteq> [] \<Longrightarrow> truthy (errorMessage dflt r)"
  by (auto simp: errorMessage_def server_error_nonempty intro!: truthy_js_or
      split: option.splits json.splits)

text \<open>
  The computed message is never falsy, so the fallback text of the 400 branch is never
  used: for 400 the error carries the computed message, as for the statuses below 500
  that have no branch of their own.
\<close>

lemma http_error_cases:
  "dflt \<noteq> [] \<Longrightarrow> http_error dflt r =
     Error (if status r = 400 then errorMessage dflt r
            else if status r = 413 then JStr ''File too large. Maximum file size is 100MB.''
            else if status r = 500 then JStr ''Server error. Please try again later.''
            else if status r > 500
            then JStr (server_error (status r) @ ''. Please try again later.'')
            else errorMessage dflt r)"
  using truthy_errorMessage [of dflt r] by (auto simp: http_error_def js_or_def)

text \<open>
  The errors of the input checks are not TypeErrors, so the \<open>catch\<close> passes them on:
  both functions, written with the \<open>catch\<close> applied where it can matter.
\<close>

lemma uploadVideos_unfold:
  "uploadVideos files config net =
     (case files of
        None \<Rightarrow> ([], Inl (Error (JStr ''No files provided'')))
      | Some fs \<Rightarrow>
          if fs = [] then ([], Inl (Error (JStr ''No files provided'')))
          else if length fs > 6 then ([], Inl (Error (JStr ''Maximum 6 videos allowed'')))
          else if js_le (frame_interval config) (Num 0)
          then ([], Inl (Error (JStr ''Frame interval must be greater than 0'')))
          else if js_le (max_duration config) (Num 0)
          then ([], Inl (Error (JStr ''Max duration must be greater than 0'')))
          else if None \<in> set fs then ([], Inl (Error (JStr ''Invalid file provided'')))
          else
            let req = \<lparr>path = ''/api/analyze'', form = upload_form (map the fs) config\<rparr>
            in ([req], catch_network (upload_response (net req))))"
  by (simp add: uploadVideos_def uploadVideos_try_def catch_network_Error Let_def
      split: option.splits)

lemma addTimestampOverlay_unfold:
  "addTimestampOverlay files md net =
     (case files of
        None \<Rightarrow> ([], Inl (Error (JStr ''No files provided'')))
      | Some fs \<Rightarrow>
          if fs = [] then ([], Inl (Error (JStr ''No files provided'')))
          else if length fs > 6 then ([], Inl (Error (JStr ''Maximum 6 videos allowed'')))
          else if (case md of Given d \<Rightarrow> js_le d (Num 0) | _ \<Rightarrow> False)
          then ([], Inl (Error (JStr ''Max duration must be greater than 0'')))
          else if (case md of Given d \<Rightarrow> js_gt d (Num 60) | _ \<Rightarrow> False)
          then ([], Inl (Error (JStr ''Max duration cannot exceed 60 seconds'')))
          else if None \<in> set fs then ([], Inl (Error (JStr ''Invalid file provided'')))
          else
            let req = \<lparr>path = ''/api/video/timestamp-overlay'',
                       form = overlay_form (map the fs) md\<rparr>
            in ([req], catch_network (overlay_response (net req))))"
  by (simp add: addTimestampOverlay_def addTimestampOverlay_try_def catch_network_Error Let_def
      split: option.splits)

lemma uploadVideos_sent:
  assumes "fs \<noteq> []" "length fs \<le> 6" "None \<notin> set fs"
    and "\<not> js_le (frame_interval config) (Num 0)" "\<not> js_le (max_duration config) (Num 0)"
  shows "uploadVideos (Some fs) config net =
           ([\<lparr>path = ''/api/analyze'', form = upload_form (map the fs) config\<rparr>],
            catch_network (upload_response
              (net \<lparr>path = ''/api/analyze'', form = upload_form (map the fs) config\<rparr>)))"
  using assms by (simp add: uploadVideos_unfold Let_def)

lemma uploadVideos_cases:
  "(fst (uploadVideos files config net) = [] \<and>
      (\<exists>v. snd (uploadVideos files config net) = Inl (Error v)))
   \<or> (\<exists>req. fst (uploadVideos files config net) = [req] \<and>
         snd (uploadVideos files config net) = catch_network (upload_response (net req)))"
  by (auto simp: uploadVideos_unfold Let_def split: option.splits)

lemma upload_response_Inr:
  "upload_response fr = Inr result \<longleftrightarrow>
     (\<exists>r. fr = Resolved r \<and> ok r \<and> body r = Some result \<and> truthy result \<and>
          isArray (get ''frames'' result))"
  by (auto simp: upload_response_def split: fetch_result.splits option.splits if_splits)

lemma upload_response_not_ok:
  "\<not> ok r \<Longrightarrow> upload_response (Resolved r) = Inl (http_error ''Failed to upload videos'' r)"
  by (simp add: upload_response_def)

text \<open>
  C1. \<open>uploadVideos\<close> checks the configuration itself, whoever calls it: with
  \<open>frame_interval <= 0\<close> or \<open>max_duration <= 0\<close> it throws and no request has been
  issued, whatever the files and the network are; when the file list has passed
  its own two checks the error is the one of the interval, else of the duration. With
  both greater than 0 (and files that pass their checks) the request is issued,
  carrying the two values.
\<close>

theorem uploadVideos_revalidates_config:
  "(js_le (frame_interval config) (Num 0) \<or> js_le (max_duration config) (Num 0) \<longrightarrow>
      fst (uploadVideos files config net) = [] \<and>
      (\<exists>v. snd (uploadVideos files config net) = Inl (Error v)))
   \<and> (fs \<noteq> [] \<and> length fs \<le> 6 \<and> js_le (frame_interval config) (Num 0) \<longrightarrow>
        snd (uploadVideos (Some fs) config net) =
          Inl (Error (JStr ''Frame interval must be greater than 0'')))
   \<and> (fs \<noteq> [] \<and> length fs \<le> 6 \<and> \<not> js_le (frame_interval config) (Num 0) \<and>
        js_le (max_duration config) (Num 0) \<longrightarrow>
        snd (uploadVideos (Some fs) config net) =
          Inl (Error (JStr ''Max duration must be greater than 0'')))
   \<and> (js_gt (frame_interval config) (Num 0) \<and> js_gt (max_duration config) (Num 0) \<and>
        fs \<noteq> [] \<and> length fs \<le> 6 \<and> None \<notin> set fs \<longrightarrow>
        fst (uploadVideos (Some fs) config net) =
          [\<lparr>path = ''/api/analyze'', form = upload_form (map the fs) config\<rparr>])"
proof (intro conjI impI)
  assume bad: "js_le (frame_interval config) (Num 0) \<or> js_le (max_duration config) (Num 0)"
  then show "fst (uploadVideos files config net) = []"
    by (auto simp: uploadVideos_unfold split: option.splits)
  from bad show "\<exists>v. snd (uploadVideos files config net) = Inl (Error v)"
    by (auto simp: uploadVideos_unfold split: option.splits)
next
  assume "fs \<noteq> [] \<and> length fs \<le> 6 \<and> js_le (frame_interval config) (Num 0)"
  then show "snd (uploadVideos (Some fs) config net) =
      Inl (Error (JStr ''Frame interval must be greater than 0''))"
    by (simp add: uploadVideos_unfold)
next
  assume "fs \<noteq> [] \<and> length fs \<le> 6 \<and> \<not> js_le (frame_interval config) (Num 0) \<and>
    js_le (max_duration config) (Num 0)"
  then show "snd (uploadVideos (Some fs) config net) =
      Inl (Error (JStr ''Max duration must be greater than 0''))"
    by (simp add: uploadVideos_unfold)
next
  assume "js_gt (frame_interval config) (Num 0) \<and> js_gt (max_duration config) (Num 0) \<and>
    fs \<noteq> [] \<and> length fs \<le> 6 \<and> None \<notin> set fs"
  then show "fst (uploadVideos (Some fs) config net) =
      [\<lparr>path = ''/api/analyze'', form = upload_form (map the fs) config\<rparr>]"
    by (simp add: uploadVideos_sent js_gt_not_le)
qed

theorem uploadVideos_revalidates_config_witness:
  "fst (uploadVideos (Some [Some clip]) \<lparr>frame_interval = Num 0, max_duration = Num 10\<rparr>
          offline) = []
   \<and> snd (uploadVideos (Some [Some clip]) \<lparr>frame_interval = Num 0, max_duration = Num 10\<rparr>
          offline) = Inl (Error (JStr ''Frame interval must be greater than 0''))
   \<and> snd (uploadVideos (Some [Some clip]) \<lparr>frame_interval = Num 1, max_duration = Num (- 5)\<rparr>
          offline) = Inl (Error (JStr ''Max duration must be greater than 0''))
   \<and> fst (uploadVideos (Some [Some clip]) \<lparr>frame_interval = Num 1, max_duration = Num 10\<rparr>
          offline) =
        [\<lparr>path = ''/api/analyze'',
          form = [(''videos'', FileField clip), (''frame_interval'', NumField (Num 1)),
                  (''max_duration'', NumField (Num 10))]\<rparr>]"
  using
    uploadVideos_revalidates_config
      [of "\<lparr>frame_interval = Num 0, max_duration = Num 10\<rparr>" "Some [Some clip]" offline
          "[Some clip]"]
    uploadVideos_revalidates_config
      [of "\<lparr>frame_interval = Num 1, max_duration = Num (- 5)\<rparr>" "Some [Some clip]" offline
          "[Some clip]"]
    uploadVideos_revalidates_config
      [of "\<lparr>frame_interval = Num 1, max_duration = Num 10\<rparr>" "Some [Some clip]" offline
          "[Some clip]"]
  by (simp add: upload_form_def)

lemma upload_response_ok_array:
  "ok r \<Longrightarrow> body r = Some b \<Longrightarrow> isArray (get ''frames'' b) \<Longrightarrow> upload_response (Resolved r) = Inr b"
  by (cases b) (auto simp: upload_response_def)

text \<open>
  What \<open>uploadVideos\<close> returns and throws. It returns a value only when a request was
  issued, the response to it is ok and the \<open>frames\<close> of the parsed body is an array;
  with valid inputs and such a response it does return the body. On every response that
  is not ok it throws an \<open>Error\<close>, and on an ok response whose body does not parse, is
  falsy or has \<open>frames\<close> that is not an array it throws. For a response that is not ok
  the message is fixed for 413 and 500 and names the status for the other statuses from
  500 on; for 400 it is the message computed from the body or the status text, as for
  the statuses that have no branch.
\<close>

lemma uploadVideos_returns_or_throws:
  "(snd (uploadVideos files config net) = Inr result \<longrightarrow>
      (\<exists>req r. fst (uploadVideos files config net) = [req] \<and> net req = Resolved r \<and> ok r \<and>
               body r = Some result \<and> isArray (get ''frames'' result)))
   \<and> (\<not> ok r \<longrightarrow> (\<exists>v. snd (uploadVideos files config (replies r)) = Inl (Error v)))
   \<and> (ok r \<and> (body r = None \<or> (\<exists>b. body r = Some b \<and> \<not> isArray (get ''frames'' b))) \<longrightarrow>
        (\<exists>e. snd (uploadVideos files config (replies r)) = Inl e))
   \<and> (fs \<noteq> [] \<and> length fs \<le> 6 \<and> None \<notin> set fs \<and>
        \<not> js_le (frame_interval config) (Num 0) \<and> \<not> js_le (max_duration config) (Num 0) \<longrightarrow>
        (\<not> ok r \<longrightarrow>
           snd (uploadVideos (Some fs) config (replies r)) =
             Inl (Error
               (if status r = 400 then errorMessage ''Failed to upload videos'' r
                else if status r = 413 then JStr ''File too large. Maximum file size is 100MB.''
                else if status r = 500 then JStr ''Server error. Please try again later.''
                else if status r > 500
                then JStr (server_error (status r) @ ''. Please try again later.'')
                else errorMessage ''Failed to upload videos'' r))) \<and>
        (ok r \<and> body r = Some result \<and> isArray (get ''frames'' result) \<longrightarrow>
           snd (uploadVideos (Some fs) config (replies r)) = Inr result))"
proof (intro conjI impI)
  assume ret: "snd (uploadVideos files config net) = Inr result"
  from uploadVideos_cases [of files config net] ret
  obtain req where req: "fst (uploadVideos files config net) = [req]"
    and res: "catch_network (upload_response (net req)) = Inr result"
    by auto
  from res have "upload_response (net req) = Inr result"
    by (simp add: catch_network_Inr_iff)
  then obtain r' where "net req = Resolved r'" "ok r'" "body r' = Some result"
    "isArray (get ''frames'' result)"
    by (auto simp: upload_response_Inr)
  with req show "\<exists>req r. fst (uploadVideos files config net) = [req] \<and> net req = Resolved r \<and>
      ok r \<and> body r = Some result \<and> isArray (get ''frames'' result)"
    by blast
next
  assume nok: "\<not> ok r"
  from uploadVideos_cases [of files config "replies r"]
  show "\<exists>v. snd (uploadVideos files config (replies r)) = Inl (Error v)"
  proof
    assume "fst (uploadVideos files config (replies r)) = [] \<and>
      (\<exists>v. snd (uploadVideos files config (replies r)) = Inl (Error v))"
    then show ?thesis by blast
  next
    assume "\<exists>req. fst (uploadVideos files config (replies r)) = [req] \<and>
      snd (uploadVideos files config (replies r)) =
        catch_network (upload_response (replies r req))"
    with nok show ?thesis
      by (auto simp: replies_def upload_response_not_ok http_error_cases catch_network_Error)
  qed
next
  assume bad: "ok r \<and> (body r = None \<or> (\<exists>b. body r = Some b \<and> \<not> isArray (get ''frames'' b)))"
  then have "\<exists>e. upload_response (Resolved r) = Inl e"
    by (auto simp: upload_response_def)
  then obtain e where e: "upload_response (Resolved r) = Inl e" ..
  from uploadVideos_cases [of files config "replies r"] catch_network_Inl [of e]
  show "\<exists>e. snd (uploadVideos files config (replies r)) = Inl e"
    by (auto simp: replies_def e)
next
  assume inputs: "fs \<noteq> [] \<and> length fs \<le> 6 \<and> None \<notin> set fs \<and>
    \<not> js_le (frame_interval config) (Num 0) \<and> \<not> js_le (max_duration config) (Num 0)"
    and nok: "\<not> ok r"
  then show "snd (uploadVideos (Some fs) config (replies r)) =
    Inl (Error
      (if status r = 400 then errorMessage ''Failed to upload videos'' r
       else if status r = 413 then JStr ''File too large. Maximum file size is 100MB.''
       else if status r = 500 then JStr ''Server error. Please try again later.''
       else if status r > 500
       then JStr (server_error (status r) @ ''. Please try again later.'')
       else errorMessage ''Failed to upload videos'' r))"
    by (simp add: uploadVideos_sent replies_def upload_response_not_ok http_error_cases
        catch_network_Error)
next
  assume inputs: "fs \<noteq> [] \<and> length fs \<le> 6 \<and> None \<notin> set fs \<and>
    \<not> js_le (frame_interval config) (Num 0) \<and> \<not> js_le (max_duration config) (Num 0)"
    and good: "ok r \<and> body r = Some result \<and> isArray (get ''frames'' result)"
  then show "snd (uploadVideos (Some fs) config (replies r)) = Inr result"
    by (simp add: uploadVideos_sent replies_def upload_response_ok_array catch_network_Inr_iff)
qed

text \<open>
  C8. The code at a response with status 400 whose body has neither \<open>detail\<close> nor
  \<open>message\<close>. The 400 branch of \<open>api.ts\<close> (line 64) has a text of its own,
  \<open>Invalid request. Please check your video files and settings.\<close>, behind
  \<open>errorMessage ||\<close>; the message computed before is never falsy, so that text is
  never thrown. What is thrown is the default of every status, the same as for a 404
  with the same body; and with a body that does not parse, the status text, again as for
  a 404.
\<close>

theorem status_400_has_no_message_of_its_own:
  "snd (uploadVideos (Some [Some clip]) config_1_10
          (replies (failure 400 ''Bad Request'' (Some (JObj [])))))
     = Inl (Error (JStr ''Failed to upload videos''))
   \<and> snd (uploadVideos (Some [Some clip]) config_1_10
          (replies (failure 404 ''Not Found'' (Some (JObj [])))))
     = Inl (Error (JStr ''Failed to upload videos''))
   \<and> snd (uploadVideos (Some [Some clip]) config_1_10 (replies (failure 400 ''Bad Request'' None)))
     = Inl (Error (JStr ''Bad Request''))
   \<and> snd (uploadVideos (Some [Some clip]) config_1_10 (replies (failure 404 ''Not Found'' None)))
     = Inl (Error (JStr ''Not Found''))"
  by (simp add: uploadVideos_unfold config_1_10_def replies_def failure_def upload_response_def
      http_error_def errorMessage_def js_or_def catch_network_def)

lemma js_gt_60_not_le_0: "js_gt x (Num 60) \<Longrightarrow> \<not> js_le x (Num 0)"
  by (cases x) auto

lemma map_of_videos: "k \<noteq> ''videos'' \<Longrightarrow> map_of (map (\<lambda>f. (''videos'', v f)) xs) k = None"
  by (induction xs) auto

text \<open>
  C10. Given a \<open>maxDuration\<close>, \<open>addTimestampOverlay\<close> throws with no request issued
  when it is \<open><= 0\<close> or \<open>> 60\<close>, whatever the files and the network are. With it
  omitted or null no bound is checked: files that pass their checks are posted, and the
  form has the \<open>videos\<close> fields only, no \<open>max_duration\<close>.
\<close>

theorem addTimestampOverlay_duration_bound:
  "(js_le d (Num 0) \<or> js_gt d (Num 60) \<longrightarrow>
      fst (addTimestampOverlay files (Given d) net) = [] \<and>
      (\<exists>v. snd (addTimestampOverlay files (Given d) net) = Inl (Error v)))
   \<and> (fs \<noteq> [] \<and> length fs \<le> 6 \<and> js_le d (Num 0) \<longrightarrow>
        snd (addTimestampOverlay (Some fs) (Given d) net) =
          Inl (Error (JStr ''Max duration must be greater than 0'')))
   \<and> (fs \<noteq> [] \<and> length fs \<le> 6 \<and> js_gt d (Num 60) \<longrightarrow>
        snd (addTimestampOverlay (Some fs) (Given d) net) =
          Inl (Error (JStr ''Max duration cannot exceed 60 seconds'')))
   \<and> ((md = Omitted \<or> md = Null) \<and> fs \<noteq> [] \<and> length fs \<le> 6 \<and> None \<notin> set fs \<longrightarrow>
        fst (addTimestampOverlay (Some fs) md net) =
          [\<lparr>path = ''/api/video/timestamp-overlay'',
            form = map (\<lambda>f. (''videos'', FileField f)) (map the fs)\<rparr>] \<and>
        map_of (map (\<lambda>f. (''videos'', FileField f)) (map the fs)) ''max_duration'' = None)"
proof (intro conjI impI)
  assume bad: "js_le d (Num 0) \<or> js_gt d (Num 60)"
  then show "fst (addTimestampOverlay files (Given d) net) = []"
    by (auto simp: addTimestampOverlay_unfold split: option.splits)
  from bad show "\<exists>v. snd (addTimestampOverlay files (Given d) net) = Inl (Error v)"
    by (auto simp: addTimestampOverlay_unfold split: option.splits)
next
  assume "fs \<noteq> [] \<and> length fs \<le> 6 \<and> js_le d (Num 0)"
  then show "snd (addTimestampOverlay (Some fs) (Given d) net) =
      Inl (Error (JStr ''Max duration must be greater than 0''))"
    by (simp add: addTimestampOverlay_unfold)
next
  assume "fs \<noteq> [] \<and> length fs \<le> 6 \<and> js_gt d (Num 60)"
  then show "snd (addTimestampOverlay (Some fs) (Given d) net) =
      Inl (Error (JStr ''Max duration cannot exceed 60 seconds''))"
    by (simp add: addTimestampOverlay_unfold js_gt_60_not_le_0)
next
  assume "(md = Omitted \<or> md = Null) \<and> fs \<noteq> [] \<and> length fs \<le> 6 \<and> None \<notin> set fs"
  then show "fst (addTimestampOverlay (Some fs) md net) =
      [\<lparr>path = ''/api/video/timestamp-overlay'',
        form = map (\<lambda>f. (''videos'', FileField f)) (map the fs)\<rparr>]"
    by (auto simp: addTimestampOverlay_unfold overlay_form_def Let_def)
next
  show "map_of (map (\<lambda>f. (''videos'', FileField f)) (map the fs)) ''max_duration'' = None"
    by (rule map_of_videos) simp
qed

theorem addTimestampOverlay_duration_bound_witness:
  "fst (addTimestampOverlay (Some [Some clip]) (Given (Num 0)) offline) = []
   \<and> snd (addTimestampOverlay (Some [Some clip]) (Given (Num 0)) offline) =
        Inl (Error (JStr ''Max duration must be greater than 0''))
   \<and> fst (addTimestampOverlay (Some [Some clip]) (Given (Num 61)) offline) = []
   \<and> snd (addTimestampOverlay (Some [Some clip]) (Given (Num 61)) offline) =
        Inl (Error (JStr ''Max duration cannot exceed 60 seconds''))
   \<and> fst (addTimestampOverlay (Some [Some clip]) Omitted offline) =
        [\<lparr>path = ''/api/video/timestamp-overlay'', form = [(''videos'', FileField clip)]\<rparr>]
   \<and> fst (addTimestampOverlay (Some [Some clip]) Null offline) =
        [\<lparr>path = ''/api/video/timestamp-overlay'', form = [(''videos'', FileField clip)]\<rparr>]"
  using
    addTimestampOverlay_duration_bound [of "Num 0" "Some [Some clip]" offline "[Some clip]" Omitted]
    addTimestampOverlay_duration_bound [of "Num 61" "Some [Some clip]" offline "[Some clip]" Null]
  by simp

section \<open>Properties of App.tsx and of the result it receives\<close>

lemma handleAnalysisComplete_array:
  "get ''frames'' result = JArr fs \<Longrightarrow>
     handleAnalysisComplete result st =
       Inr (st\<lparr>frames := fs, analysisStatus := get ''status'' result, error := None\<rparr>)"
  by (cases result) (auto simp: handleAnalysisComplete_def)

lemma isArray_iff: "isArray v \<longleftrightarrow> (\<exists>fs. v = JArr fs)"
  by (cases v) auto

lemma uploadVideos_frames:
  assumes "snd (uploadVideos files config net) = Inr result"
  shows "\<exists>fs. get ''frames'' result = JArr fs"
proof -
  from uploadVideos_cases [of files config net] assms
  obtain req where "catch_network (upload_response (net req)) = Inr result"
    by auto
  then have "upload_response (net req) = Inr result"
    by (simp add: catch_network_Inr_iff)
  then have "isArray (get ''frames'' result)"
    by (auto simp: upload_response_Inr)
  then show ?thesis
    by (simp add: isArray_iff)
qed

text \<open>
  C2, as the claim states it, fails: a response of the declared type with status
  \<open>partial\<close> whose only properties are \<open>frames\<close>, \<open>total_frames\<close> and \<open>status\<close> (so
  it carries no reason) is returned by \<open>uploadVideos\<close>, taken by
  \<open>handleAnalysisComplete\<close>, and shown with the quota notice.
\<close>

theorem partial_response_without_reason:
  "is_AnalysisResponse (response_body [frame0] 3 ''partial'')
   \<and> get ''status'' (response_body [frame0] 3 ''partial'') = JStr ''partial''
   \<and> keys (response_body [frame0] 3 ''partial'') = [''frames'', ''total_frames'', ''status'']
   \<and> snd (uploadVideos (Some [Some clip]) config_1_10
            (replies (ok_200 (response_body [frame0] 3 ''partial''))))
        = Inr (response_body [frame0] 3 ''partial'')
   \<and> handleAnalysisComplete (response_body [frame0] 3 ''partial'') App_init
        = Inr (App_init\<lparr>frames := [frame0], analysisStatus := JStr ''partial''\<rparr>)
   \<and> partial_notice (App_init\<lparr>frames := [frame0], analysisStatus := JStr ''partial''\<rparr>)
        = Some quota_notice"
  by (simp add: is_AnalysisResponse_def is_FrameAnalysis_def response_body_def frame0_def
      uploadVideos_unfold clip_def config_1_10_def replies_def ok_200_def upload_response_def
      catch_network_def handleAnalysisComplete_def App_init_def partial_notice_def upload_form_def)

text \<open>
  C2, amended. Whenever a response that \<open>uploadVideos\<close> returns has status \<open>partial\<close>,
  it carries its frames as an array under \<open>frames\<close>; \<open>handleAnalysisComplete\<close> of the
  later revision of \<open>App\<close> (the one that is given the whole response) stores that array
  and the status, and when the analysis tab is the active one the notice shown for that
  state is the one fixed text, which begins \<open>API quota exhausted.\<close>
\<close>

theorem partial_response_handling:
  "snd (uploadVideos files config net) = Inr result \<and> get ''status'' result = JStr ''partial'' \<longrightarrow>
     (\<exists>fs. get ''frames'' result = JArr fs \<and>
           handleAnalysisComplete result st =
             Inr (st\<lparr>frames := fs, analysisStatus := JStr ''partial'', error := None\<rparr>) \<and>
           (activeTab st = tab_analysis \<longrightarrow>
              partial_notice (st\<lparr>frames := fs, analysisStatus := JStr ''partial'', error := None\<rparr>)
                = Some quota_notice \<and>
              take 20 quota_notice = ''API quota exhausted.''))"
proof
  assume a: "snd (uploadVideos files config net) = Inr result \<and>
    get ''status'' result = JStr ''partial''"
  with uploadVideos_frames [of files config net result]
  obtain fs where fs: "get ''frames'' result = JArr fs"
    by auto
  have "handleAnalysisComplete result st =
      Inr (st\<lparr>frames := fs, analysisStatus := JStr ''partial'', error := None\<rparr>)"
    using a fs by (simp add: handleAnalysisComplete_array)
  moreover have "activeTab st = tab_analysis \<longrightarrow>
      partial_notice (st\<lparr>frames := fs, analysisStatus := JStr ''partial'', error := None\<rparr>)
        = Some quota_notice \<and>
      take 20 quota_notice = ''API quota exhausted.''"
    by (simp add: partial_notice_def quota_notice_def)
  ultimately show "\<exists>fs. get ''frames'' result = JArr fs \<and>
      handleAnalysisComplete result st =
        Inr (st\<lparr>frames := fs, analysisStatus := JStr ''partial'', error := None\<rparr>) \<and>
      (activeTab st = tab_analysis \<longrightarrow>
         partial_notice (st\<lparr>frames := fs, analysisStatus := JStr ''partial'', error := None\<rparr>)
           = Some quota_notice \<and>
         take 20 quota_notice = ''API quota exhausted.'')"
    using fs by blast
qed

theorem partial_response_handling_witness:
  "\<exists>fs. get ''frames'' (response_body [frame0] 3 ''partial'') = JArr fs \<and>
        handleAnalysisComplete (response_body [frame0] 3 ''partial'') App_init =
          Inr (App_init\<lparr>frames := fs, analysisStatus := JStr ''partial'', error := None\<rparr>) \<and>
        partial_notice (App_init\<lparr>frames := fs, analysisStatus := JStr ''partial'', error := None\<rparr>)
          = Some quota_notice \<and>
        take 20 quota_notice = ''API quota exhausted.''"
proof -
  have ret: "snd (uploadVideos (Some [Some clip]) config_1_10
      (replies (ok_200 (response_body [frame0] 3 ''partial'')))) =
      Inr (response_body [frame0] 3 ''partial'')"
    by (simp add: response_body_def uploadVideos_unfold clip_def config_1_10_def replies_def
        ok_200_def upload_response_def catch_network_def upload_form_def)
  have st: "get ''status'' (response_body [frame0] 3 ''partial'') = JStr ''partial''"
    by (simp add: response_body_def)
  have tab: "activeTab App_init = tab_analysis"
    by (simp add: App_init_def)
  from partial_response_handling [where files = "Some [Some clip]" and config = config_1_10
      and net = "replies (ok_200 (response_body [frame0] 3 ''partial''))"
      and result = "response_body [frame0] 3 ''partial''" and st = App_init] ret st tab
  show ?thesis by blast
qed




section \<open>Properties of components/VideoUploader.tsx\<close>

lemma validateVideo_size:
  "file_size f > 100 * 1024 * 1024 \<or> file_size f = 0 \<Longrightarrow>
     \<not> valid (validateVideo maxDuration (Some f) ev)"
  by (auto simp: validateVideo_def rejected_def)

lemma validateVideo_mode_size:
  "file_size f > 100 * 1024 * 1024 \<or> file_size f = 0 \<Longrightarrow>
     \<not> valid (validateVideo_mode (Some f) m ev)"
  by (cases m) (auto simp: validateVideo_mode_def rejected_def Let_def)

lemma validateVideo_mode_valid:
  "valid (validateVideo_mode (Some f) m ev) \<Longrightarrow>
     0 < file_size f \<and> file_size f \<le> 100 * 1024 * 1024"
  using validateVideo_mode_size [of f m ev] by (auto intro: leI)

lemma validate_all_length: "length (fst (validate_all m sel)) \<le> length sel"
  by (induction m sel rule: validate_all.induct)
     (auto simp: Let_def split: prod.splits option.splits)

lemma validate_all_sizes:
  "v \<in> set (fst (validate_all m sel)) \<Longrightarrow>
     0 < file_size (vfile v) \<and> file_size (vfile v) \<le> 100 * 1024 * 1024"
proof (induction m sel rule: validate_all.induct)
  case (1 m)
  then show ?case by simp
next
  case (2 m f ev p rest)
  then show ?case
    using validateVideo_mode_valid [of f m ev]
    by (auto simp: Let_def split: prod.splits if_splits option.splits)
qed

lemma videos_commit:
  "videos (handleFileSelect_commit r sel st) = videos st @ fst (validate_all (seen_mode r) sel)"
  by (auto simp: handleFileSelect_commit_def Let_def split: prod.splits)

lemma videos_handleFileSelect:
  "videos (handleFileSelect r files st) =
     (case files of
        None \<Rightarrow> videos st
      | Some sel \<Rightarrow>
          if sel = [] \<or> seen_length r + length sel > 6 then videos st
          else videos st @ fst (validate_all (seen_mode r) sel))"
  by (auto simp: handleFileSelect_def handleFileSelect_check_def videos_commit
      split: option.splits)

text \<open>
  What the checks do give. \<open>uploadVideos\<close> throws, with no request issued, on more than
  6 files. A selection that would bring the count the handler closed over beyond 6 is
  refused whole, with the error set; so a call that no other update comes between (the
  count it closed over is the length of the list it appends to) leaves at most 6 videos.
  A file over 100MB or of size zero is not valid for \<open>validateVideo\<close>, in either
  revision and whatever the video element reports, and every video that a selection
  adds to the list has a size above zero and of at most 100MB.
\<close>

lemma count_and_size_checks:
  "(length fs > 6 \<longrightarrow>
      uploadVideos (Some fs) config net = ([], Inl (Error (JStr ''Maximum 6 videos allowed''))))
   \<and> (sel \<noteq> [] \<and> seen_length r + length sel > 6 \<longrightarrow>
        handleFileSelect r (Some sel) st = st\<lparr>upload_error := Some Maximum_6_videos\<rparr>)
   \<and> (length (videos st) \<le> 6 \<longrightarrow>
        length (videos (handleFileSelect (render_of st) files st)) \<le> 6)
   \<and> (file_size f > 100 * 1024 * 1024 \<or> file_size f = 0 \<longrightarrow>
        \<not> valid (validateVideo maxDuration (Some f) ev) \<and>
        \<not> valid (validateVideo_mode (Some f) m ev))
   \<and> (v \<in> set (videos (handleFileSelect r files st)) \<longrightarrow>
        v \<in> set (videos st) \<or>
        (0 < file_size (vfile v) \<and> file_size (vfile v) \<le> 100 * 1024 * 1024))"
proof (intro conjI impI)
  assume "length fs > 6"
  then show "uploadVideos (Some fs) config net =
      ([], Inl (Error (JStr ''Maximum 6 videos allowed'')))"
    by (auto simp: uploadVideos_unfold)
next
  assume "sel \<noteq> [] \<and> seen_length r + length sel > 6"
  then show "handleFileSelect r (Some sel) st = st\<lparr>upload_error := Some Maximum_6_videos\<rparr>"
    by (simp add: handleFileSelect_def handleFileSelect_check_def)
next
  assume "length (videos st) \<le> 6"
  then show "length (videos (handleFileSelect (render_of st) files st)) \<le> 6"
    using validate_all_length [of "mode st" "the files"]
    by (auto simp: videos_handleFileSelect render_of_def split: option.splits)
next
  assume big: "file_size f > 100 * 1024 * 1024 \<or> file_size f = 0"
  then show "\<not> valid (validateVideo maxDuration (Some f) ev)"
    by (rule validateVideo_size)
  from big show "\<not> valid (validateVideo_mode (Some f) m ev)"
    by (rule validateVideo_mode_size)
next
  assume "v \<in> set (videos (handleFileSelect r files st))"
  then show "v \<in> set (videos st) \<or>
      (0 < file_size (vfile v) \<and> file_size (vfile v) \<le> 100 * 1024 * 1024)"
    using validate_all_sizes [of v "seen_mode r" "the files"]
    by (auto simp: videos_handleFileSelect split: option.splits if_splits)
qed

text \<open>
  C4. The code at two selections of four valid files each on an empty list, the second
  made before the validations of the first have resolved. Both handlers closed over
  \<open>videos.length = 0\<close>, so both checks pass (\<open>0 + 4 > 6\<close> is false); each commit then
  appends its four videos to the list as it is by then, and the list holds eight. The
  second addition exceeds 6 and is not refused. (\<open>uploadVideos\<close> still refuses the eight
  files.)
\<close>

theorem overlapping_selections_give_eight:
  "fst (handleFileSelect_check (render_of (uploader [])) (Some (replicate 4 dropped))
          (uploader [])) = True
   \<and> fst (handleFileSelect_check (render_of (uploader [])) (Some (replicate 4 dropped))
          (snd (handleFileSelect_check (render_of (uploader [])) (Some (replicate 4 dropped))
                  (uploader [])))) = True
   \<and> length (videos
        (handleFileSelect_commit (render_of (uploader [])) (replicate 4 dropped)
          (handleFileSelect_commit (render_of (uploader [])) (replicate 4 dropped)
            (snd (handleFileSelect_check (render_of (uploader [])) (Some (replicate 4 dropped))
              (snd (handleFileSelect_check (render_of (uploader [])) (Some (replicate 4 dropped))
                (uploader [])))))))) = 8
   \<and> uploadVideos (Some (replicate 8 (Some clip))) config_1_10 offline =
        ([], Inl (Error (JStr ''Maximum 6 videos allowed'')))"
proof -
  have one: "validate_all mode_frame (dropped # rest) =
      (accepted # fst (validate_all mode_frame rest), snd (validate_all mode_frame rest))" for rest
    by (simp add: dropped_def accepted_def clip_def validateVideo_mode_def startsWith_def
        isNaN_def Let_def split: prod.splits)
  have rep: "replicate 4 x = [x, x, x, x]" for x :: "'a"
    by (simp add: numeral_eq_Suc)
  have four: "fst (validate_all mode_frame (replicate 4 dropped)) = replicate 4 accepted"
    by (simp add: rep one)
  have eight: "uploadVideos (Some (replicate 8 (Some clip))) config_1_10 offline =
      ([], Inl (Error (JStr ''Maximum 6 videos allowed'')))"
    using count_and_size_checks [where fs = "replicate 8 (Some clip)" and config = config_1_10
        and net = offline]
    by simp
  show ?thesis
    by (simp add: handleFileSelect_check_def render_of_def uploader_def videos_commit four eight)
qed

section \<open>Properties of the time stamp of the overlay\<close>

lemma digit_char_digit: "d < 10 \<Longrightarrow> digit_char d \<in> set ''0123456789''"
  unfolding digit_char_def by (rule nth_mem) simp

lemma show_nat_nonempty: "show_nat n \<noteq> []"
  by (subst show_nat.simps) simp

lemma digits_show_nat: "digits (show_nat n)"
proof (induction n rule: show_nat.induct)
  case (1 n)
  show ?case
  proof (cases "n < 10")
    case True
    then show ?thesis
      using digit_char_digit [of n] by (subst show_nat.simps) (simp add: digits_def)
  next
    case False
    with 1 have "digits (show_nat (n div 10))" by simp
    moreover have "digit_char (n mod 10) \<in> set ''0123456789''"
      by (rule digit_char_digit) simp
    ultimately show ?thesis
      using False by (subst show_nat.simps) (simp add: digits_def)
  qed
qed

lemma length_show_nat_10: "n < 10 \<Longrightarrow> length (show_nat n) = 1"
  by (subst show_nat.simps) simp

lemma length_show_nat_100: "n < 100 \<Longrightarrow> length (show_nat n) \<le> 2"
  by (subst show_nat.simps) (simp add: length_show_nat_10)

lemma length_show_nat_1000: "n < 1000 \<Longrightarrow> length (show_nat n) \<le> 3"
  using length_show_nat_100 [of "n div 10"] by (subst show_nat.simps) simp

lemma length_padStart: "length (padStart n c s) = max n (length s)"
  by (simp add: padStart_def)

lemma digits_padStart: "digits s \<Longrightarrow> digits (padStart n CHR ''0'' s)"
  by (auto simp: padStart_def digits_def)

lemma length_pad2: "n < 100 \<Longrightarrow> length (padStart 2 CHR ''0'' (show_nat n)) = 2"
  using length_show_nat_100 [of n] by (simp add: length_padStart)

lemma length_pad3: "n < 1000 \<Longrightarrow> length (padStart 3 CHR ''0'' (show_nat n)) = 3"
  using length_show_nat_1000 [of n] by (simp add: length_padStart)

lemma digits_pad: "digits (padStart n CHR ''0'' (show_nat k))"
  by (simp add: digits_padStart digits_show_nat)

text \<open>
  C7. For every duration of at least 0 seconds the time stamp of the overlay has the
  form \<open>HH:MM:SS.mmm\<close>: an hours field of decimal digits (of two at least), a
  two-digit minutes field, a two-digit seconds field and a three-digit milliseconds
  field, with the colons and the point between them. At 1.234 seconds it is
  \<open>00:00:01.234\<close>.
\<close>

theorem overlay_timestamp_format:
  "(0 \<le> s \<longrightarrow>
      (\<exists>h m sec ms. overlay_timestamp s = h @ '':'' @ m @ '':'' @ sec @ ''.'' @ ms \<and>
         digits h \<and> digits m \<and> digits sec \<and> digits ms \<and>
         2 \<le> length h \<and> length m = 2 \<and> length sec = 2 \<and> length ms = 3))
   \<and> overlay_timestamp (1234 / 1000) = ''00:00:01.234''"
proof (intro conjI impI)
  assume "0 \<le> s"
  define h where "h = padStart 2 CHR ''0'' (show_nat (nat \<lfloor>s / 3600\<rfloor>))"
  define m where "m = padStart 2 CHR ''0'' (show_nat (nat \<lfloor>s / 60\<rfloor> mod 60))"
  define sec where "sec = padStart 2 CHR ''0'' (show_nat (nat \<lfloor>s\<rfloor> mod 60))"
  define ms where "ms = padStart 3 CHR ''0'' (show_nat (nat \<lfloor>s * 1000\<rfloor> mod 1000))"
  have eq: "overlay_timestamp s = h @ '':'' @ m @ '':'' @ sec @ ''.'' @ ms"
    by (simp add: overlay_timestamp_def Let_def h_def m_def sec_def ms_def)
  have d: "digits h" "digits m" "digits sec" "digits ms"
    by (simp_all add: h_def m_def sec_def ms_def digits_pad)
  have "nat \<lfloor>s / 60\<rfloor> mod 60 < 60" "nat \<lfloor>s\<rfloor> mod 60 < 60"
    by simp_all
  then have b: "nat \<lfloor>s / 60\<rfloor> mod 60 < 100" "nat \<lfloor>s\<rfloor> mod 60 < 100"
    by linarith+
  have lh: "2 \<le> length h"
    by (simp add: h_def length_padStart)
  have l: "length m = 2" "length sec = 2" "length ms = 3"
    using b by (simp_all add: m_def sec_def ms_def length_pad2 length_pad3)
  from eq d lh l show "\<exists>h m sec ms. overlay_timestamp s = h @ '':'' @ m @ '':'' @ sec @ ''.'' @ ms \<and>
      digits h \<and> digits m \<and> digits sec \<and> digits ms \<and>
      2 \<le> length h \<and> length m = 2 \<and> length sec = 2 \<and> length ms = 3"
    by blast
next
  show "overlay_timestamp (1234 / 1000) = ''00:00:01.234''"
    by (simp add: overlay_timestamp_def padStart_def show_nat.simps digit_char_def)
qed

theorem overlay_timestamp_format_witness:
  "(\<exists>h m sec ms. overlay_timestamp (3725 + 1 / 4) = h @ '':'' @ m @ '':'' @ sec @ ''.'' @ ms \<and>
      digits h \<and> digits m \<and> digits sec \<and> digits ms \<and>
      2 \<le> length h \<and> length m = 2 \<and> length sec = 2 \<and> length ms = 3)
   \<and> overlay_timestamp (3725 + 1 / 4) = ''01:02:05.250''"
proof -
  have v: "overlay_timestamp (3725 + 1 / 4) = ''01:02:05.250''"
    by (simp add: overlay_timestamp_def padStart_def show_nat.simps digit_char_def)
  have "(0::real) \<le> 3725 + 1 / 4" by simp
  with overlay_timestamp_format [of "3725 + 1 / 4"] v show ?thesis by blast
qed

section \<open>Properties of SummaryPanel\<close>

lemma tally_count:
  "snd (tally fs (p, c)) = c + length (filter ball_visible fs)"
  by (induction fs arbitrary: p c) auto

lemma ballVisibilityRate_nonempty:
  assumes "fs \<noteq> []"
  shows "ballVisibilityRate (SummaryPanel fs) =
     Num (of_int \<lfloor>real (length (filter ball_visible fs)) / real (length fs) * 100 + 1 / 2\<rfloor>)"
proof -
  obtain p c where t: "tally fs (Num 0, 0) = (p, c)" by (cases "tally fs (Num 0, 0)")
  with tally_count [of fs "Num 0" 0] have c: "c = length (filter ball_visible fs)" by simp
  from assms t c show ?thesis by (simp add: SummaryPanel_def)
qed

text \<open>
  C9. For the empty list of frames both divisions are skipped and the average of
  players and the ball visibility rate are 0. For every list of frames (whatever its
  \<open>players_detected\<close> are, so also when none is negative) the ball visibility rate is an
  integer from 0 to 100.
\<close>

theorem SummaryPanel_rates:
  "avgPlayersDetected (SummaryPanel []) = Num 0
   \<and> ballVisibilityRate (SummaryPanel []) = Num 0
   \<and> (\<exists>k. ballVisibilityRate (SummaryPanel fs) = Num (of_int k) \<and> 0 \<le> k \<and> k \<le> 100)"
proof (intro conjI)
  show "avgPlayersDetected (SummaryPanel []) = Num 0" by (simp add: SummaryPanel_def)
  show "ballVisibilityRate (SummaryPanel []) = Num 0" by (simp add: SummaryPanel_def)
  show "\<exists>k. ballVisibilityRate (SummaryPanel fs) = Num (of_int k) \<and> 0 \<le> k \<and> k \<le> 100"
  proof (cases "fs = []")
    case True
    then have "ballVisibilityRate (SummaryPanel fs) = Num (of_int 0)"
      by (simp add: SummaryPanel_def)
    then show ?thesis by (intro exI [of _ 0]) simp
  next
    case False
    define n where "n = length (filter ball_visible fs)"
    define l where "l = length fs"
    have nl: "n \<le> l" by (simp add: n_def l_def)
    have l0: "0 < l" using False by (simp add: l_def)
    define q where "q = real n / real l * 100 + 1 / 2"
    have "real n / real l \<le> 1" using nl l0 by simp
    then have qb: "1 / 2 \<le> q" "q \<le> 100 + 1 / 2" by (simp_all add: q_def)
    then have "0 \<le> \<lfloor>q\<rfloor>" "\<lfloor>q\<rfloor> \<le> 100"
      by (simp_all add: floor_le_iff)
    moreover have "ballVisibilityRate (SummaryPanel fs) = Num (of_int \<lfloor>q\<rfloor>)"
      using ballVisibilityRate_nonempty [OF False] by (simp add: q_def n_def l_def)
    ultimately show ?thesis by blast
  qed
qed

section \<open>Properties of the normalizer\<close>

lemma normalize_team_range: "normalize_team v \<in> {''A'', ''B'', ''unknown''}"
  by (simp add: normalize_team_def split: json.splits)

lemma normalize_team_idem: "normalize_team (JStr (normalize_team v)) = normalize_team v"
proof -
  have a: "normalize_team (JStr ''A'') = ''A''"
    by (simp add: normalize_team_def toLowerCase_def team_A_names_def)
  have b: "normalize_team (JStr ''B'') = ''B''"
    by (simp add: normalize_team_def toLowerCase_def team_A_names_def team_B_names_def)
  have u: "normalize_team (JStr ''unknown'') = ''unknown''"
    by (simp add: normalize_team_def toLowerCase_def team_A_names_def team_B_names_def)
  from normalize_team_range [of v] a b u show ?thesis by auto
qed

lemma normalize_players_range: "\<exists>n. normalize_players v = Num (real n)"
proof (cases v)
  case (JNum x)
  show ?thesis
  proof (cases x)
    case (Num r)
    show ?thesis
    proof (cases "r < 0")
      case True
      with JNum Num have "normalize_players v = Num (real 0)" by (simp add: normalize_players_def)
      then show ?thesis ..
    next
      case False
      then have "0 \<le> \<lfloor>r\<rfloor>" by simp
      then have "of_int \<lfloor>r\<rfloor> = real (nat \<lfloor>r\<rfloor>)" by simp
      with JNum Num False have "normalize_players v = Num (real (nat \<lfloor>r\<rfloor>))"
        by (simp add: normalize_players_def)
      then show ?thesis ..
    qed
  qed (simp_all add: JNum normalize_players_def exI [of _ 0])
qed (simp_all add: normalize_players_def exI [of _ 0])

lemma normalize_players_idem:
  "normalize_players (JNum (normalize_players v)) = normalize_players v"
proof -
  from normalize_players_range [of v] obtain n where "normalize_players v = Num (real n)" ..
  then show ?thesis by (simp add: normalize_players_def)
qed

lemma text_or_idem: "d \<noteq> [] \<Longrightarrow> text_or d (JStr (text_or d v)) = text_or d v"
  by (simp add: text_or_def split: json.splits)

lemma normalize_timestamp_idem:
  "normalize_timestamp (JNum (normalize_timestamp v)) = normalize_timestamp v"
  by (simp add: normalize_timestamp_def)

lemma get_to_raw:
  "get ''timestamp'' (to_raw n) = JNum (timestamp n)"
  "get ''event'' (to_raw n) = JStr (event n)"
  "get ''ball_position'' (to_raw n) = JStr (ball_position n)"
  "get ''players_detected'' (to_raw n) = JNum (players_detected n)"
  "get ''team_a_shape'' (to_raw n) = JStr (team_a_shape n)"
  "get ''team_b_shape'' (to_raw n) = JStr (team_b_shape n)"
  "get ''tactical_notes'' (to_raw n) = JStr (tactical_notes n)"
  "get ''team'' (to_raw n) = JStr (team n)"
  by (simp_all add: to_raw_def)

text \<open>
  C5. \<open>normalize\<close> is a function on every raw value, so it returns a record for each.
  It is idempotent: normalizing the record it returned, written back as an object, gives
  that record again. The team of its result is \<open>A\<close>, \<open>B\<close> or \<open>unknown\<close>, its
  \<open>players_detected\<close> a natural number; and the raw output with team \<open>TEAM 1\<close> and
  \<open>players_detected\<close> \<open>-3\<close> normalizes to team \<open>A\<close> and 0 players.
\<close>

theorem normalize_total_idempotent:
  "normalize (to_raw (normalize raw)) = normalize raw
   \<and> team (normalize raw) \<in> {''A'', ''B'', ''unknown''}
   \<and> (\<exists>n. players_detected (normalize raw) = Num (real n))
   \<and> team (normalize (JObj [(''team'', JStr ''TEAM 1''), (''players_detected'', JNum (Num (- 3)))]))
        = ''A''
   \<and> players_detected
        (normalize (JObj [(''team'', JStr ''TEAM 1''), (''players_detected'', JNum (Num (- 3)))]))
        = Num 0"
proof (intro conjI)
  show "normalize (to_raw (normalize raw)) = normalize raw"
    by (simp add: normalize_def [of "to_raw _"] get_to_raw)
       (simp add: normalize_def normalize_team_idem normalize_players_idem text_or_idem
          normalize_timestamp_idem)
  show "team (normalize raw) \<in> {''A'', ''B'', ''unknown''}"
    using normalize_team_range by (simp add: normalize_def)
  show "\<exists>n. players_detected (normalize raw) = Num (real n)"
    using normalize_players_range by (simp add: normalize_def)
  show "team (normalize (JObj [(''team'', JStr ''TEAM 1''), (''players_detected'', JNum (Num (- 3)))]))
        = ''A''"
    by (simp add: normalize_def normalize_team_def toLowerCase_def team_A_names_def)
  show "players_detected
        (normalize (JObj [(''team'', JStr ''TEAM 1''), (''players_detected'', JNum (Num (- 3)))]))
        = Num 0"
    by (simp add: normalize_def normalize_players_def)
qed

section \<open>Properties of the frame sampler\<close>

lemma sample_time_bound:
  fixes interval maxd dur :: real
  assumes "0 < interval" "0 < maxd" "k \<in> set (sample_indices dur interval maxd)"
  shows "real k * interval \<le> maxd"
proof (cases "k = 0")
  case True
  with assms show ?thesis by simp
next
  case False
  define q where "q = min dur maxd / interval"
  from assms(3) have "k \<le> nat \<lfloor>q\<rfloor>" by (simp add: sample_indices_def q_def del: upt_Suc)
  with False have "int k \<le> \<lfloor>q\<rfloor>" by linarith
  then have "real k \<le> q" by (simp add: le_floor_iff)
  then have "real k * interval \<le> min dur maxd"
    using assms(1) by (simp add: q_def pos_le_divide_eq)
  then show ?thesis by simp
qed

lemma sample_count_bound:
  fixes interval maxd dur :: real
  assumes "0 < interval" "0 < maxd"
  shows "length (sample_indices dur interval maxd) \<le> nat \<lceil>maxd / interval\<rceil> + 1"
proof -
  have "min dur maxd / interval \<le> maxd / interval"
    using assms by (simp add: divide_right_mono)
  then have "\<lfloor>min dur maxd / interval\<rfloor> \<le> \<lceil>maxd / interval\<rceil>"
    by (meson floor_le_ceiling floor_mono order_trans)
  then show ?thesis by (simp add: sample_indices_def nat_mono del: upt_Suc)
qed

text \<open>
  C6. With \<open>frame_interval > 0\<close> and \<open>max_duration > 0\<close> no emitted time stamp exceeds
  \<open>max_duration\<close>, and at most \<open>ceil(max_duration / frame_interval) + 1\<close> frames are
  emitted; the sampler does emit when the first frame decodes, and it refuses a
  configuration that is not valid. A 15-second video with \<open>max_duration = 10\<close> and
  \<open>frame_interval = 2\<close> gives exactly the frames at 0, 2, 4, 6, 8 and 10.
\<close>

theorem sample_frames_bounded:
  "(0 < interval \<and> 0 < maxd \<and> sample_frames v interval maxd = Inr ts \<longrightarrow>
      (\<forall>t. t \<in> set ts \<longrightarrow> t \<le> maxd) \<and> length ts \<le> nat \<lceil>maxd / interval\<rceil> + 1)
   \<and> (0 < interval \<and> 0 < maxd \<and> decodable v 0 \<longrightarrow> (\<exists>ts. sample_frames v interval maxd = Inr ts))
   \<and> (interval \<le> 0 \<or> maxd \<le> 0 \<longrightarrow> sample_frames v interval maxd = Inl ConfigError)
   \<and> sample_frames \<lparr>declared_duration = 15, decodable = (\<lambda>_. True)\<rparr> 2 10 = Inr [0, 2, 4, 6, 8, 10]"
proof (intro conjI impI allI)
  fix t
  assume a: "0 < interval \<and> 0 < maxd \<and> sample_frames v interval maxd = Inr ts" and t: "t \<in> set ts"
  then have ts: "ts = map (\<lambda>k. real k * interval)
      (filter (decodable v) (sample_indices (declared_duration v) interval maxd))"
    by (auto simp: sample_frames_def Let_def split: if_splits)
  with t obtain k where "k \<in> set (sample_indices (declared_duration v) interval maxd)"
    "t = real k * interval"
    by auto
  with a show "t \<le> maxd"
    using sample_time_bound [of interval maxd k "declared_duration v"] by simp
next
  assume a: "0 < interval \<and> 0 < maxd \<and> sample_frames v interval maxd = Inr ts"
  then have ts: "ts = map (\<lambda>k. real k * interval)
      (filter (decodable v) (sample_indices (declared_duration v) interval maxd))"
    by (auto simp: sample_frames_def Let_def split: if_splits)
  have "length ts \<le> length (sample_indices (declared_duration v) interval maxd)"
    by (simp add: ts)
  with a show "length ts \<le> nat \<lceil>maxd / interval\<rceil> + 1"
    using sample_count_bound [of interval maxd "declared_duration v"] by linarith
next
  assume a: "0 < interval \<and> 0 < maxd \<and> decodable v 0"
  have "0 \<in> set (sample_indices (declared_duration v) interval maxd)"
    by (simp add: sample_indices_def del: upt_Suc)
  with a have "filter (decodable v) (sample_indices (declared_duration v) interval maxd) \<noteq> []"
    by (auto simp: filter_empty_conv)
  with a show "\<exists>ts. sample_frames v interval maxd = Inr ts"
    by (simp add: sample_frames_def Let_def)
next
  assume "interval \<le> 0 \<or> maxd \<le> 0"
  then show "sample_frames v interval maxd = Inl ConfigError"
    by (auto simp: sample_frames_def)
next
  show "sample_frames \<lparr>declared_duration = 15, decodable = (\<lambda>_. True)\<rparr> 2 10 = Inr [0, 2, 4, 6, 8, 10]"
    by (simp add: sample_frames_def sample_indices_def upt_rec)
qed

theorem sample_frames_bounded_witness:
  "sample_frames \<lparr>declared_duration = 7, decodable = (\<lambda>k. k \<noteq> 1)\<rparr> (3 / 2) 4 = Inr [0, 3]
   \<and> (0::real) \<le> 4 \<and> (3::real) \<le> 4
   \<and> length [0, 3 :: real] \<le> nat \<lceil>(4::real) / (3 / 2)\<rceil> + 1
   \<and> (\<exists>ts. sample_frames \<lparr>declared_duration = 7, decodable = (\<lambda>k. k \<noteq> 1)\<rparr> (3 / 2) 4 = Inr ts)
   \<and> sample_frames \<lparr>declared_duration = 7, decodable = (\<lambda>k. k \<noteq> 1)\<rparr> 0 4 = Inl ConfigError"
proof -
  have v: "sample_frames \<lparr>declared_duration = 7, decodable = (\<lambda>k. k \<noteq> 1)\<rparr> (3 / 2) 4 = Inr [0, 3]"
    by (simp add: sample_frames_def sample_indices_def upt_rec)
  from sample_frames_bounded [of "3 / 2" 4 "\<lparr>declared_duration = 7, decodable = (\<lambda>k. k \<noteq> 1)\<rparr>" "[0, 3]"]
    sample_frames_bounded [of 0 4 "\<lparr>declared_duration = 7, decodable = (\<lambda>k. k \<noteq> 1)\<rparr>" "[]"] v
  show ?thesis by simp
qed

end
